theory Spec2Isabelle
  imports Main
begin

section \<open>JavaScript values\<close>

text \<open>
  The form scripts of the Connect app are JavaScript. They receive JSON from the
  server through \<^verbatim>\<open>frappe.call\<close> and test it with the usual dynamic idioms
  (\<^verbatim>\<open>r.message && r.message.ok\<close>, \<^verbatim>\<open>x || fallback\<close>, \<^verbatim>\<open>x === "ok"\<close>). The values
  are therefore modelled untyped, as the values JSON can carry. A number is an integer
  of the range in which JavaScript's double precision numbers are exact (the safe
  integers, up to \<^verbatim>\<open>2^53 - 1\<close> in absolute value), and \<open>JNaN\<close> is the result of
  arithmetic on \<^verbatim>\<open>undefined\<close>. Where an operation meets a number outside that range, or
  needs the numeric value of a string, the model does not say what the code does: the
  result is the error \<open>OutsideModel\<close>. Strings are byte strings; the three non-ASCII
  characters of the source are written in UTF-8.
\<close>

datatype jsval =
    JUndefined
  | JNull
  | JBool bool
  | JNum int
  | JNaN
  | JStr string
  | JArr "jsval list"
  | JObj "(string \<times> jsval) list"

datatype js_error =
    TypeError \<comment> \<open>thrown by the code: a property read on \<^verbatim>\<open>undefined\<close>/\<^verbatim>\<open>null\<close>, a call of a non-function, an object without a primitive value\<close>
  | OutsideModel \<comment> \<open>not thrown by the code: floating point behaviour that is not modelled\<close>

fun truthy :: "jsval \<Rightarrow> bool" where
  "truthy JUndefined = False"
| "truthy JNull = False"
| "truthy (JBool b) = b"
| "truthy (JNum n) = (n \<noteq> 0)"
| "truthy JNaN = False"
| "truthy (JStr s) = (s \<noteq> [])"
| "truthy (JArr xs) = True"
| "truthy (JObj ps) = True"

text \<open>\<^verbatim>\<open>a || b\<close> on values.\<close>

definition js_or :: "jsval \<Rightarrow> jsval \<Rightarrow> jsval" where
  "js_or a b = (if truthy a then a else b)"

text \<open>
  \<^verbatim>\<open>v.k\<close> for a property name written in the source. A read on \<^verbatim>\<open>undefined\<close> or
  \<^verbatim>\<open>null\<close> throws; a missing property is \<^verbatim>\<open>undefined\<close>; strings and arrays have a
  \<^verbatim>\<open>length\<close>. None of the names the scripts read this way (message, ok, data, kafka,
  schema_registry, status, detail, stats, length, direction, count, idempotency_key)
  is a member of \<^verbatim>\<open>Object.prototype\<close> or, \<^verbatim>\<open>length\<close> apart, of the prototype of
  strings, arrays, numbers or booleans, so inherited members play no part here.
\<close>

fun js_get :: "jsval \<Rightarrow> string \<Rightarrow> js_error + jsval" where
  "js_get JUndefined k = Inl TypeError"
| "js_get JNull k = Inl TypeError"
| "js_get (JObj ps) k = Inr (case map_of ps k of Some v \<Rightarrow> v | None \<Rightarrow> JUndefined)"
| "js_get (JArr xs) k = Inr (if k = ''length'' then JNum (int (length xs)) else JUndefined)"
| "js_get (JStr s) k = Inr (if k = ''length'' then JNum (int (length s)) else JUndefined)"
| "js_get (JBool b) k = Inr JUndefined"
| "js_get (JNum n) k = Inr JUndefined"
| "js_get JNaN k = Inr JUndefined"

text \<open>\<^verbatim>\<open>v.k1.k2...\<close>: the first failing read ends the chain.\<close>

fun js_path :: "jsval \<Rightarrow> string list \<Rightarrow> js_error + jsval" where
  "js_path v [] = Inr v"
| "js_path v (k # ks) = (case js_get v k of Inl e \<Rightarrow> Inl e | Inr w \<Rightarrow> js_path w ks)"

definition and_then :: "js_error + 'a \<Rightarrow> ('a \<Rightarrow> js_error + 'b) \<Rightarrow> js_error + 'b" where
  "and_then r f = (case r of Inl e \<Rightarrow> Inl e | Inr v \<Rightarrow> f v)"

text \<open>The results of a list of steps, in order; the first error ends them.\<close>

fun collect :: "(js_error + 'a) list \<Rightarrow> js_error + 'a list" where
  "collect [] = Inr []"
| "collect (r # rs) = and_then r (\<lambda>v. and_then (collect rs) (\<lambda>vs. Inr (v # vs)))"

subsection \<open>Conversion to string\<close>

definition max_safe_integer :: int where
  "max_safe_integer = 9007199254740991"

definition safe_integer :: "int \<Rightarrow> bool" where
  "safe_integer n = (- max_safe_integer \<le> n \<and> n \<le> max_safe_integer)"

definition digit_char :: "nat \<Rightarrow> char" where
  "digit_char d =
     (if d = 0 then CHR ''0'' else if d = 1 then CHR ''1'' else if d = 2 then CHR ''2''
      else if d = 3 then CHR ''3'' else if d = 4 then CHR ''4'' else if d = 5 then CHR ''5''
      else if d = 6 then CHR ''6'' else if d = 7 then CHR ''7'' else if d = 8 then CHR ''8''
      else CHR ''9'')"

fun nat_to_string :: "nat \<Rightarrow> string" where
  "nat_to_string n =
     (if n < 10 then [digit_char n] else nat_to_string (n div 10) @ [digit_char (n mod 10)])"

definition int_to_string :: "int \<Rightarrow> string" where
  "int_to_string i = (if i < 0 then CHR ''-'' # nat_to_string (nat (- i)) else nat_to_string (nat i))"

fun join_commas :: "string list \<Rightarrow> string" where
  "join_commas [] = []"
| "join_commas [s] = s"
| "join_commas (s # t # ss) = s @ '','' @ join_commas (t # ss)"

text \<open>
  \<^verbatim>\<open>String(v)\<close>, as a template literal \<^verbatim>\<open>${v}\<close> and a computed property key apply
  it. A safe integer is printed in decimal. An array joins the strings of its elements
  with commas, \<^verbatim>\<open>undefined\<close> and \<^verbatim>\<open>null\<close> elements giving the empty string. A plain
  object is \<^verbatim>\<open>[object Object]\<close> through the inherited \<^verbatim>\<open>toString\<close>; an object with a
  property \<^verbatim>\<open>toString\<close> of its own, which in JSON is never a function, has no primitive
  value and the conversion throws.
\<close>

fun to_string :: "jsval \<Rightarrow> js_error + string" where
  "to_string JUndefined = Inr ''undefined''"
| "to_string JNull = Inr ''null''"
| "to_string (JBool b) = Inr (if b then ''true'' else ''false'')"
| "to_string (JNum n) = (if safe_integer n then Inr (int_to_string n) else Inl OutsideModel)"
| "to_string JNaN = Inr ''NaN''"
| "to_string (JStr s) = Inr s"
| "to_string (JArr xs) =
     and_then
       (collect (map (\<lambda>x. if x = JUndefined \<or> x = JNull then Inr [] else to_string x) xs))
       (\<lambda>parts. Inr (join_commas parts))"
| "to_string (JObj ps) =
     (if ''toString'' \<in> set (map fst ps) then Inl TypeError else Inr ''[object Object]'')"

subsection \<open>Addition and comparison\<close>

text \<open>
  The primitive value of an operand of \<^verbatim>\<open>+\<close> or \<^verbatim>\<open>>\<close>: an array or object is turned
  into its string (the inherited \<^verbatim>\<open>valueOf\<close> returns the object itself, so the string
  conversion decides), which throws as above.
\<close>

fun to_primitive :: "jsval \<Rightarrow> js_error + jsval" where
  "to_primitive (JArr xs) = and_then (to_string (JArr xs)) (\<lambda>s. Inr (JStr s))"
| "to_primitive (JObj ps) = and_then (to_string (JObj ps)) (\<lambda>s. Inr (JStr s))"
| "to_primitive v = Inr v"

fun is_string :: "jsval \<Rightarrow> bool" where
  "is_string (JStr s) = True"
| "is_string v = False"

text \<open>\<^verbatim>\<open>Number(v)\<close> for a primitive that is not a string: \<open>None\<close> stands for NaN.\<close>

fun to_number :: "jsval \<Rightarrow> int option" where
  "to_number (JNum n) = Some n"
| "to_number JNull = Some 0"
| "to_number (JBool b) = Some (if b then 1 else 0)"
| "to_number v = None"

text \<open>
  \<^verbatim>\<open>a + b\<close>: if either primitive operand is a string the result is the concatenation
  of their strings, otherwise both are turned into numbers (\<^verbatim>\<open>undefined\<close> is NaN,
  \<^verbatim>\<open>null\<close> is 0, \<^verbatim>\<open>true\<close> is 1) and added. The sum of two safe integers is exact when
  it is a safe integer again; beyond that range JavaScript rounds, which is not modelled.
\<close>

definition js_add :: "jsval \<Rightarrow> jsval \<Rightarrow> js_error + jsval" where
  "js_add a b =
     and_then (to_primitive a) (\<lambda>pa.
     and_then (to_primitive b) (\<lambda>pb.
       if is_string pa \<or> is_string pb then
         and_then (to_string pa) (\<lambda>sa.
         and_then (to_string pb) (\<lambda>sb. Inr (JStr (sa @ sb))))
       else (case (to_number pa, to_number pb) of
               (Some m, Some n) \<Rightarrow>
                 if safe_integer m \<and> safe_integer n \<and> safe_integer (m + n)
                 then Inr (JNum (m + n)) else Inl OutsideModel
             | _ \<Rightarrow> Inr JNaN)))"

text \<open>
  \<^verbatim>\<open>v > 0\<close>. A string operand is compared through its numeric value, which needs the
  floating point grammar of JavaScript and is left outside the model.
\<close>

definition js_gt_zero :: "jsval \<Rightarrow> js_error + bool" where
  "js_gt_zero v =
     and_then (to_primitive v) (\<lambda>p.
       if is_string p then Inl OutsideModel
       else (case to_number p of Some n \<Rightarrow> Inr (0 < n) | None \<Rightarrow> Inr False))"

subsection \<open>Lookup in an object literal with a computed key\<close>

text \<open>
  \<^verbatim>\<open>obj[key]\<close> on an object literal turns the key into a string, which may throw, and
  finds the literal's own properties and, failing that, the members every object
  inherits from \<^verbatim>\<open>Object.prototype\<close>. Those are functions (\<^verbatim>\<open>__proto__\<close> is the
  prototype object itself), all of them truthy.
\<close>

definition object_prototype_members :: "string list" where
  "object_prototype_members =
     [''constructor'', ''hasOwnProperty'', ''isPrototypeOf'', ''propertyIsEnumerable'',
      ''toLocaleString'', ''toString'', ''valueOf'', ''__proto__'',
      ''__defineGetter__'', ''__defineSetter__'', ''__lookupGetter__'', ''__lookupSetter__'']"

datatype 'a member =
    Own 'a \<comment> \<open>a value written in the literal\<close>
  | Inherited string \<comment> \<open>the member of \<^verbatim>\<open>Object.prototype\<close> of that name\<close>

definition js_lookup :: "(string \<times> 'a) list \<Rightarrow> jsval \<Rightarrow> js_error + 'a member option" where
  "js_lookup props key =
     and_then (to_string key) (\<lambda>k.
       Inr (case map_of props k of
              Some v \<Rightarrow> Some (Own v)
            | None \<Rightarrow> if k \<in> set object_prototype_members then Some (Inherited k) else None))"

section \<open>The framework, as the scripts use it\<close>

text \<open>
  The scripts run inside the Frappe desk. What they do there is recorded as a list of
  effects, in the order of the calls. The translation function \<^verbatim>\<open>__(text, args)\<close> of the
  framework is a parameter \<open>tr\<close> of every function that calls it. A request made with
  \<^verbatim>\<open>frappe.call\<close> is one effect; its \<^verbatim>\<open>callback\<close> is a function of its own, applied to
  \<^verbatim>\<open>r.message\<close>, the value the server method returned (\<^verbatim>\<open>r\<close> itself is always an
  object). A callback that throws has no effect.
\<close>

type_synonym translate = "jsval \<Rightarrow> jsval list \<Rightarrow> jsval"

record call =
  "method" :: string
  args :: "(string \<times> jsval) list"
  freeze :: bool
  freeze_message :: "jsval option"
  async :: bool

record dialog_field =
  label :: jsval
  fieldname :: string
  fieldtype :: string
  options :: string
  default_value :: jsval
  read_only :: bool
  reqd :: bool
  description :: "jsval option"

record dialog =
  dialog_title :: jsval
  dialog_fields :: "dialog_field list"
  primary_action_label :: jsval

datatype effect =
    AddCustomButton jsval "jsval option" \<comment> \<open>\<^verbatim>\<open>frm.add_custom_button(label, handler, group)\<close>\<close>
  | ShowAlert jsval string \<comment> \<open>\<^verbatim>\<open>frappe.show_alert({message, indicator})\<close>\<close>
  | MsgPrint jsval jsval string \<comment> \<open>\<^verbatim>\<open>frappe.msgprint({title, message, indicator})\<close>\<close>
  | Call call \<comment> \<open>\<^verbatim>\<open>frappe.call({...})\<close>\<close>
  | Confirm jsval \<comment> \<open>\<^verbatim>\<open>frappe.confirm(message, on_yes)\<close>\<close>
  | ReloadDoc \<comment> \<open>\<^verbatim>\<open>frm.reload_doc()\<close>\<close>
  | ShowDialog dialog \<comment> \<open>\<^verbatim>\<open>new frappe.ui.Dialog({...}).show()\<close>\<close>
  | HideDialog \<comment> \<open>\<^verbatim>\<open>d.hide()\<close>\<close>
  | SetIndicator jsval "string member" \<comment> \<open>\<^verbatim>\<open>frm.page.set_indicator(label, colour)\<close>\<close>
  | AddIndicator jsval string \<comment> \<open>\<^verbatim>\<open>frm.dashboard.add_indicator(label, colour)\<close>\<close>
  | BannerHtml string \<comment> \<open>\<^verbatim>\<open>$banner.html(text)\<close>\<close>

text \<open>
  \<^verbatim>\<open>frm.doc\<close> is always an object, so reading one of its fields never throws; a field
  that is not set reads as \<^verbatim>\<open>undefined\<close>. The values a dialog hands to its primary action
  are an object of the same kind.
\<close>

type_synonym doc = "(string \<times> jsval) list"

definition doc_field :: "doc \<Rightarrow> string \<Rightarrow> jsval" where
  "doc_field d k = (case map_of d k of Some v \<Rightarrow> v | None \<Rightarrow> JUndefined)"

text \<open>The test every callback starts with: \<^verbatim>\<open>r.message && r.message.ok\<close>.\<close>

definition message_ok :: "jsval \<Rightarrow> bool" where
  "message_ok m = (truthy m \<and> (case js_get m ''ok'' of Inr v \<Rightarrow> truthy v | Inl e \<Rightarrow> False))"

text \<open>A line break of a template literal followed by \<open>n\<close> tabs of indentation.\<close>

definition nl :: "nat \<Rightarrow> string" where
  "nl n = CHR 0x0A # replicate n (CHR 0x09)"

definition check_mark :: string where
  "check_mark = [CHR 0xE2, CHR 0x9C, CHR 0x93]"

definition cross_mark :: string where
  "cross_mark = [CHR 0xE2, CHR 0x9C, CHR 0x97]"

section \<open>connect\_settings.js\<close>

definition build_health_row :: "string \<Rightarrow> bool \<Rightarrow> jsval \<Rightarrow> js_error + string" where
  \<open>build_health_row lbl is_ok detail =
     (let icon = (if is_ok then check_mark else cross_mark);
          color = (if is_ok then ''#28B463'' else ''#E74C3C'')
      in and_then (to_string detail) (\<lambda>detail_text.
           Inr (nl 2 @ ''<div style="display: flex; align-items: center; padding: 8px 0; border-bottom: 1px solid var(--border-color);">''
                @ nl 3 @ ''<span style="color: '' @ color @ ''; font-size: 18px; width: 24px; text-align: center;">'' @ icon @ ''</span>''
                @ nl 3 @ ''<strong style="margin-left: 8px; min-width: 140px;">'' @ lbl @ ''</strong>''
                @ nl 3 @ ''<span class="text-muted" style="margin-left: 12px;">'' @ detail_text @ ''</span>''
                @ nl 2 @ ''</div>''
                @ nl 1)))\<close>

definition add_test_connection_button :: "translate \<Rightarrow> effect list" where
  "add_test_connection_button tr =
     [AddCustomButton (tr (JStr ''Test Connection'') []) (Some (tr (JStr ''Actions'') []))]"

text \<open>The handler of the button.\<close>

definition test_connection_click :: "translate \<Rightarrow> effect list" where
  "test_connection_click tr =
     [ShowAlert (tr (JStr ''Testing connection...'') []) ''blue'',
      Call \<lparr>method = ''connect.api.test_connection'', args = [], freeze = True,
            freeze_message = Some (tr (JStr ''Checking Kafka & Schema Registry...'') []),
            async = False\<rparr>]"

text \<open>
  The callback of that request. \<open>kafka_ok\<close> and \<open>sr_ok\<close> are only ever tested, so they
  are kept as the truth value of the source's expression.
\<close>

definition test_connection_callback :: "translate \<Rightarrow> jsval \<Rightarrow> js_error + effect list" where
  \<open>test_connection_callback tr m =
     (if message_ok m then
        and_then (js_get m ''data'') (\<lambda>data.
        and_then (js_get data ''kafka'') (\<lambda>kafka.
        and_then (js_get data ''schema_registry'') (\<lambda>sr.
          let kafka_ok = (truthy kafka \<and> js_get kafka ''status'' = Inr (JStr ''ok''));
              sr_ok = (truthy sr \<and> js_get sr ''status'' = Inr (JStr ''ok''))
          in
        and_then (js_get kafka ''detail'') (\<lambda>kafka_detail.
        and_then (js_get sr ''detail'') (\<lambda>sr_detail.
        and_then (build_health_row ''Kafka Brokers'' kafka_ok
                    (if kafka_ok then kafka_detail
                     else js_or kafka_detail (JStr ''Connection failed''))) (\<lambda>kafka_row.
        and_then (build_health_row ''Schema Registry'' sr_ok
                    (if sr_ok then sr_detail
                     else js_or sr_detail (JStr ''Connection failed''))) (\<lambda>sr_row.
          let html = ''<div class="connect-health-result">'' @ kafka_row @ sr_row @ ''</div>''
          in Inr [MsgPrint
                    (if kafka_ok \<and> sr_ok then tr (JStr ''All Connected'') []
                     else tr (JStr ''Connection Issues'') [])
                    (JStr html)
                    (if kafka_ok \<and> sr_ok then ''green'' else ''red'')])))))))
      else if truthy m then
        and_then (js_get m ''message'') (\<lambda>text.
          Inr [MsgPrint (tr (JStr ''Connection Test Failed'') []) text ''red''])
      else
        Inr [MsgPrint (tr (JStr ''Connection Test Failed'') [])
               (tr (JStr ''Unexpected error'') []) ''red''])\<close>

text \<open>The \<^verbatim>\<open>error\<close> handler of the request, run when the server cannot be reached.\<close>

definition test_connection_error :: "translate \<Rightarrow> effect list" where
  "test_connection_error tr =
     [MsgPrint (tr (JStr ''Error'') [])
        (tr (JStr ''Failed to reach the server. Check your network.'') []) ''red'']"

definition add_refresh_schemas_button :: "translate \<Rightarrow> effect list" where
  "add_refresh_schemas_button tr =
     [AddCustomButton (tr (JStr ''Refresh Schemas'') []) (Some (tr (JStr ''Actions'') []))]"

definition refresh_schemas_click :: "translate \<Rightarrow> effect list" where
  "refresh_schemas_click tr =
     [Call \<lparr>method = ''connect.api.refresh_schemas'', args = [], freeze = True,
            freeze_message = Some (tr (JStr ''Refreshing Avro schemas from registry...'') []),
            async = False\<rparr>]"

definition refresh_schemas_callback :: "translate \<Rightarrow> jsval \<Rightarrow> js_error + effect list" where
  "refresh_schemas_callback tr m =
     (if message_ok m then
        Inr [ShowAlert (tr (JStr ''Schema cache refreshed successfully'') []) ''green'']
      else if truthy m then
        and_then (js_get m ''message'') (\<lambda>text.
          Inr [MsgPrint (tr (JStr ''Schema Refresh Failed'') []) text ''red''])
      else
        Inr [MsgPrint (tr (JStr ''Schema Refresh Failed'') [])
               (tr (JStr ''Unknown error'') []) ''red''])"

text \<open>
  \<^verbatim>\<open>_update_connection_status\<close>, once the banner element is found: the spinner, then
  the request. The lookup of the element in the page is not modelled.
\<close>

definition update_connection_status :: "effect list" where
  \<open>update_connection_status =
     [BannerHtml ''<div class="text-muted small"><i class="fa fa-spinner fa-spin"></i> Checking status...</div>'',
      Call \<lparr>method = ''connect.api.test_connection'', args = [], freeze = False,
            freeze_message = None, async = True\<rparr>]\<close>

text \<open>The two template literals of the banner.\<close>

definition status_banner :: "translate \<Rightarrow> bool \<Rightarrow> bool \<Rightarrow> js_error + string" where
  \<open>status_banner tr kafka_ok sr_ok =
     (let all_ok = (kafka_ok \<and> sr_ok)
      in and_then (to_string (if all_ok then tr (JStr ''Connected'') []
                              else tr (JStr ''Connection Issues'') [])) (\<lambda>heading.
           Inr (''<div class="alert alert-'' @ (if all_ok then ''success'' else ''warning'')
                  @ '' p-2 mb-0" style="font-size: 0.85rem;">''
                @ nl 6 @ ''<span class="indicator-pill '' @ (if all_ok then ''green'' else ''orange'')
                  @ ''"></span>''
                @ nl 6 @ ''<strong>'' @ heading @ ''</strong>''
                @ nl 6 @ ''<span class="text-muted ml-2">''
                @ nl 7 @ ''Kafka: '' @ (if kafka_ok then check_mark else cross_mark)
                  @ '' &nbsp;|&nbsp; Schema Registry: ''
                  @ (if sr_ok then check_mark else cross_mark)
                @ nl 6 @ ''</span>''
                @ nl 5 @ ''</div>'')))\<close>

definition disconnected_banner :: "translate \<Rightarrow> jsval \<Rightarrow> js_error + string" where
  \<open>disconnected_banner tr reason =
     and_then (to_string (tr (JStr ''Disconnected'') [])) (\<lambda>heading.
     and_then (to_string reason) (\<lambda>reason_text.
       Inr (''<div class="alert alert-danger p-2 mb-0" style="font-size: 0.85rem;">''
            @ nl 6 @ ''<span class="indicator-pill red"></span>''
            @ nl 6 @ ''<strong>'' @ heading @ ''</strong>''
            @ nl 6 @ ''<span class="text-muted ml-2">'' @ reason_text @ ''</span>''
            @ nl 5 @ ''</div>'')))\<close>

definition update_connection_status_callback :: "translate \<Rightarrow> jsval \<Rightarrow> js_error + effect list" where
  "update_connection_status_callback tr m =
     (if message_ok m then
        and_then (js_get m ''data'') (\<lambda>data.
        and_then (js_get data ''kafka'') (\<lambda>kafka.
        and_then (js_get data ''schema_registry'') (\<lambda>sr.
          let kafka_ok = (truthy kafka \<and> js_get kafka ''status'' = Inr (JStr ''ok''));
              sr_ok = (truthy sr \<and> js_get sr ''status'' = Inr (JStr ''ok''))
          in and_then (status_banner tr kafka_ok sr_ok) (\<lambda>html. Inr [BannerHtml html]))))
      else if truthy m then
        and_then (js_get m ''message'') (\<lambda>reason.
        and_then (disconnected_banner tr reason) (\<lambda>html. Inr [BannerHtml html]))
      else
        and_then (disconnected_banner tr (JStr ''Check configuration''))
          (\<lambda>html. Inr [BannerHtml html]))"

definition update_connection_status_error :: "effect list" where
  "update_connection_status_error = [BannerHtml []]"

text \<open>
  The statistics on the dashboard. The body of \<^verbatim>\<open>stats.forEach\<close> is
  \<open>stats_step\<close>; the three totals are threaded through the loop.
\<close>

definition add_stats_section :: "doc \<Rightarrow> effect list" where
  "add_stats_section d =
     (if truthy (doc_field d ''__islocal'') then []
      else [Call \<lparr>method = ''connect.api.get_kafka_stats'', args = [], freeze = False,
                  freeze_message = None, async = True\<rparr>])"

definition stats_step :: "jsval \<times> jsval \<times> jsval \<Rightarrow> jsval \<Rightarrow> js_error + jsval \<times> jsval \<times> jsval" where
  "stats_step totals s =
     (case totals of (total_produced, total_consumed, total_failed) \<Rightarrow>
        and_then (js_get s ''direction'') (\<lambda>direction.
        and_then (js_get s ''status'') (\<lambda>status.
        and_then (js_get s ''count'') (\<lambda>count.
        and_then (if direction = JStr ''Produced'' then js_add total_produced count
                  else Inr total_produced) (\<lambda>total_produced.
        and_then (if direction = JStr ''Consumed'' then js_add total_consumed count
                  else Inr total_consumed) (\<lambda>total_consumed.
        and_then (if status = JStr ''Failed'' \<or> status = JStr ''Dead Letter''
                  then js_add total_failed count else Inr total_failed) (\<lambda>total_failed.
          Inr (total_produced, total_consumed, total_failed))))))))"

fun stats_forEach :: "jsval list \<Rightarrow> jsval \<times> jsval \<times> jsval \<Rightarrow> js_error + jsval \<times> jsval \<times> jsval" where
  "stats_forEach [] totals = Inr totals"
| "stats_forEach (s # ss) totals = and_then (stats_step totals s) (stats_forEach ss)"

definition stats_indicator :: "jsval \<Rightarrow> jsval \<Rightarrow> string \<Rightarrow> js_error + effect" where
  "stats_indicator lbl total_n colour =
     and_then (js_gt_zero total_n) (\<lambda>positive.
       Inr (AddIndicator lbl (if positive then colour else ''grey'')))"

definition stats_callback :: "translate \<Rightarrow> jsval \<Rightarrow> js_error + effect list" where
  "stats_callback tr m =
     (if message_ok m then
        and_then (js_path m [''data'', ''stats'']) (\<lambda>stats0.
          let stats = js_or stats0 (JArr [])
          in
        and_then (js_get stats ''length'') (\<lambda>len.
          if \<not> truthy len then Inr []
          else (case stats of
                  JArr xs \<Rightarrow>
                    and_then (stats_forEach xs (JNum 0, JNum 0, JNum 0)) (\<lambda>totals.
                      case totals of (total_produced, total_consumed, total_failed) \<Rightarrow>
                    and_then (stats_indicator
                                (tr (JStr ''Produced (24h): {0}'') [total_produced])
                                total_produced ''blue'') (\<lambda>i1.
                    and_then (stats_indicator
                                (tr (JStr ''Consumed (24h): {0}'') [total_consumed])
                                total_consumed ''green'') (\<lambda>i2.
                    and_then (stats_indicator
                                (tr (JStr ''Failed (24h): {0}'') [total_failed])
                                total_failed ''red'') (\<lambda>i3.
                      Inr [i1, i2, i3]))))
                | _ \<Rightarrow> Inl TypeError)))
      else Inr [])"

section \<open>connect\_message\_log.js\<close>

subsection \<open>Form view\<close>

definition status_colors :: "(string \<times> string) list" where
  "status_colors =
     [(''Pending'', ''orange''),
      (''Sent'', ''blue''),
      (''Delivered'', ''blue''),
      (''Failed'', ''red''),
      (''Processed'', ''green''),
      (''Skipped'', ''grey''),
      (''Dead Letter'', ''darkgrey'')]"

text \<open>
  \<^verbatim>\<open>status_colors[status] || "grey"\<close>: a colour of the literal is a non-empty string and
  an inherited member is a function, so whatever the lookup finds is kept.
\<close>

definition set_status_indicator :: "translate \<Rightarrow> doc \<Rightarrow> js_error + effect list" where
  "set_status_indicator tr d =
     (let status = doc_field d ''status''
      in and_then (js_lookup status_colors status) (\<lambda>found.
           let color = (case found of
                          Some (Own c) \<Rightarrow> if c \<noteq> [] then Own c else Own ''grey''
                        | Some (Inherited k) \<Rightarrow> Inherited k
                        | None \<Rightarrow> Own ''grey'')
           in Inr [SetIndicator (tr status []) color]))"

definition add_retry_button :: "translate \<Rightarrow> doc \<Rightarrow> effect list" where
  "add_retry_button tr d =
     (if doc_field d ''status'' \<noteq> JStr ''Failed'' \<or> doc_field d ''direction'' \<noteq> JStr ''Produced''
      then []
      else if \<not> truthy (doc_field d ''source_doctype'') \<or> \<not> truthy (doc_field d ''source_docname'')
              \<or> \<not> truthy (doc_field d ''rule_name'')
      then []
      else [AddCustomButton (tr (JStr ''Retry Production'') []) None])"

text \<open>The handler of the button asks for confirmation.\<close>

definition retry_click :: "translate \<Rightarrow> doc \<Rightarrow> effect list" where
  "retry_click tr d =
     [Confirm (tr (JStr ''This will re-produce the message for {0} {1} using rule '{2}'. Continue?'')
                 [doc_field d ''source_doctype'', doc_field d ''source_docname'',
                  doc_field d ''rule_name''])]"

text \<open>What runs when the operator confirms.\<close>

definition retry_confirmed :: "translate \<Rightarrow> doc \<Rightarrow> effect list" where
  "retry_confirmed tr d =
     [Call \<lparr>method = ''connect.api.manual_produce'',
            args = [(''doctype'', doc_field d ''source_doctype''),
                    (''docname'', doc_field d ''source_docname''),
                    (''rule_name'', doc_field d ''rule_name'')],
            freeze = True,
            freeze_message = Some (tr (JStr ''Producing message...'') []),
            async = False\<rparr>]"

definition retry_callback :: "translate \<Rightarrow> jsval \<Rightarrow> js_error + effect list" where
  "retry_callback tr m =
     (if message_ok m then
        and_then (js_path m [''data'', ''idempotency_key'']) (\<lambda>key.
          Inr [ShowAlert (tr (JStr ''Message re-produced with key: {0}'') [key]) ''green'',
               ReloadDoc])
      else if truthy m then
        and_then (js_get m ''message'') (\<lambda>text.
          Inr [MsgPrint (tr (JStr ''Production Failed'') []) text ''red''])
      else
        Inr [MsgPrint (tr (JStr ''Production Failed'') [])
               (tr (JStr ''Unknown error'') []) ''red''])"

subsection \<open>List view\<close>

definition status_map :: "translate \<Rightarrow> (string \<times> jsval \<times> string \<times> string) list" where
  "status_map tr =
     [(''Pending'', (tr (JStr ''Pending'') [], ''orange'', ''status,=,Pending'')),
      (''Sent'', (tr (JStr ''Sent'') [], ''blue'', ''status,=,Sent'')),
      (''Delivered'', (tr (JStr ''Delivered'') [], ''blue'', ''status,=,Delivered'')),
      (''Failed'', (tr (JStr ''Failed'') [], ''red'', ''status,=,Failed'')),
      (''Processed'', (tr (JStr ''Processed'') [], ''green'', ''status,=,Processed'')),
      (''Skipped'', (tr (JStr ''Skipped'') [], ''grey'', ''status,=,Skipped'')),
      (''Dead Letter'', (tr (JStr ''Dead Letter'') [], ''darkgrey'', ''status,=,Dead Letter''))]"

text \<open>
  \<^verbatim>\<open>status_map[doc.status] || [__(doc.status), "grey", ""]\<close>: an array of the literal and
  an inherited member are both truthy.
\<close>

definition get_indicator :: "translate \<Rightarrow> doc \<Rightarrow> js_error + (jsval \<times> string \<times> string) member" where
  "get_indicator tr d =
     and_then (js_lookup (status_map tr) (doc_field d ''status'')) (\<lambda>found.
       Inr (case found of
              Some looked_up \<Rightarrow> looked_up
            | None \<Rightarrow> Own (tr (doc_field d ''status'') [], ''grey'', [])))"

section \<open>connect\_emission\_rule.js\<close>

definition add_manual_push_button :: "translate \<Rightarrow> doc \<Rightarrow> effect list" where
  "add_manual_push_button tr d =
     [AddCustomButton (tr (JStr ''Manual Push'') []) (Some (tr (JStr ''Actions'') []))]"

definition manual_push_dialog :: "translate \<Rightarrow> doc \<Rightarrow> dialog" where
  "manual_push_dialog tr d =
     \<lparr>dialog_title =
        tr (JStr (''Manual Push '' @ [CHR 0xE2, CHR 0x80, CHR 0x94] @ '' {0}''))
           [doc_field d ''rule_name''],
      dialog_fields =
        [\<lparr>label = tr (JStr ''Source DocType'') [],
          fieldname = ''doctype'',
          fieldtype = ''Link'',
          options = ''DocType'',
          default_value = doc_field d ''source_doctype'',
          read_only = True,
          reqd = True,
          description = None\<rparr>,
         \<lparr>label = tr (JStr ''Document Name'') [],
          fieldname = ''docname'',
          fieldtype = ''Dynamic Link'',
          options = ''doctype'',
          default_value = JUndefined,
          read_only = False,
          reqd = True,
          description =
            Some (tr (JStr ''Select a specific {0} to push through this rule'')
                    [doc_field d ''source_doctype''])\<rparr>],
      primary_action_label = tr (JStr ''Push to Broker'') []\<rparr>"

text \<open>The handler of the button opens the dialog.\<close>

definition manual_push_click :: "translate \<Rightarrow> doc \<Rightarrow> effect list" where
  "manual_push_click tr d = [ShowDialog (manual_push_dialog tr d)]"

text \<open>\<^verbatim>\<open>primary_action(values)\<close> of the dialog.\<close>

definition primary_action :: "translate \<Rightarrow> doc \<Rightarrow> doc \<Rightarrow> effect list" where
  "primary_action tr d values =
     [HideDialog,
      Call \<lparr>method = ''connect.api.manual_produce'',
            args = [(''doctype'', doc_field values ''doctype''),
                    (''docname'', doc_field values ''docname''),
                    (''rule_name'', doc_field d ''name'')],
            freeze = True,
            freeze_message =
              Some (tr (JStr ''Producing message for {0} {1}...'')
                      [doc_field values ''doctype'', doc_field values ''docname'']),
            async = False\<rparr>]"

definition manual_push_callback :: "translate \<Rightarrow> jsval \<Rightarrow> js_error + effect list" where
  "manual_push_callback tr m =
     (if message_ok m then
        and_then (js_path m [''data'', ''idempotency_key'']) (\<lambda>key.
          Inr [ShowAlert (tr (JStr ''Message produced! Key: {0}'') [key]) ''green''])
      else if truthy m then
        and_then (js_get m ''message'') (\<lambda>text.
          Inr [MsgPrint (tr (JStr ''Push Failed'') []) text ''red''])
      else
        Inr [MsgPrint (tr (JStr ''Push Failed'') []) (tr (JStr ''Unknown error'') []) ''red''])"

definition add_recent_logs_section :: "doc \<Rightarrow> effect list" where
  "add_recent_logs_section d =
     (if truthy (doc_field d ''__islocal'') then []
      else [Call \<lparr>method = ''frappe.client.get_count'',
                  args = [(''doctype'', JStr ''Connect Message Log''),
                          (''filters'', JObj [(''rule_name'', doc_field d ''name'')])],
                  freeze = False, freeze_message = None, async = True\<rparr>,
            Call \<lparr>method = ''frappe.client.get_count'',
                  args = [(''doctype'', JStr ''Connect Message Log''),
                          (''filters'', JObj [(''rule_name'', doc_field d ''name''),
                                             (''status'', JStr ''Failed'')])],
                  freeze = False, freeze_message = None, async = True\<rparr>])"

definition total_messages_callback :: "translate \<Rightarrow> jsval \<Rightarrow> js_error + effect list" where
  "total_messages_callback tr m =
     (if truthy m then
        and_then (js_gt_zero m) (\<lambda>positive.
          Inr [AddIndicator (tr (JStr ''Total Messages: {0}'') [m])
                 (if positive then ''blue'' else ''grey'')])
      else Inr [])"

definition failed_messages_callback :: "translate \<Rightarrow> jsval \<Rightarrow> js_error + effect list" where
  "failed_messages_callback tr m =
     (if truthy m then
        and_then (js_gt_zero m) (\<lambda>positive.
          Inr (if positive then [AddIndicator (tr (JStr ''Failed: {0}'') [m]) ''red''] else []))
      else Inr [])"

text \<open>The \<^verbatim>\<open>refresh\<close> handler of the Emission Rule form.\<close>

definition emission_rule_refresh :: "translate \<Rightarrow> doc \<Rightarrow> effect list" where
  "emission_rule_refresh tr d =
     (if \<not> truthy (doc_field d ''__islocal'') \<and> truthy (doc_field d ''enabled'')
      then add_manual_push_button tr d else [])
     @ add_recent_logs_section d"

section \<open>Notions used in the statements\<close>

text \<open>The requests among the effects of a handler.\<close>

fun calls :: "effect list \<Rightarrow> call list" where
  "calls [] = []"
| "calls (Call c # es) = c # calls es"
| "calls (e # es) = calls es"

text \<open>The argument of a request under a given name.\<close>

definition call_arg :: "call \<Rightarrow> string \<Rightarrow> jsval" where
  "call_arg c k = (case map_of (args c) k of Some v \<Rightarrow> v | None \<Rightarrow> JUndefined)"

text \<open>
  A translation function for the concrete examples: the one of a site without
  translations, which returns the text it is given.
\<close>

definition untranslated :: translate where
  "untranslated text replacements = text"

text \<open>
  One element of the \<^verbatim>\<open>stats\<close> list of \<^verbatim>\<open>get_kafka_stats\<close>, as the gateway returns
  it: \<^verbatim>\<open>{direction, status, count}\<close> with an integer count.
\<close>

definition stat_row :: "jsval \<times> jsval \<times> int \<Rightarrow> jsval" where
  "stat_row row =
     (case row of (direction, status, n) \<Rightarrow>
        JObj [(''direction'', direction), (''status'', status), (''count'', JNum n)])"

text \<open>The sum of the counts of the rows that satisfy a condition.\<close>

definition count_where :: "(jsval \<Rightarrow> jsval \<Rightarrow> bool) \<Rightarrow> (jsval \<times> jsval \<times> int) list \<Rightarrow> int" where
  "count_where cond rows =
     sum_list (map (\<lambda>(direction, status, n). if cond direction status then n else 0) rows)"

text \<open>The sum of the absolute values of all counts of a list.\<close>

definition count_magnitude :: "(jsval \<times> jsval \<times> int) list \<Rightarrow> int" where
  "count_magnitude rows = sum_list (map (\<lambda>(direction, status, n). \<bar>n\<bar>) rows)"

text \<open>
  What read-only means for a dialog of the framework: the values it hands to the primary
  action carry, for each read-only field, the default the field was created with.
\<close>

definition keeps_read_only_defaults :: "dialog \<Rightarrow> doc \<Rightarrow> bool" where
  "keeps_read_only_defaults dlg values =
     list_all (\<lambda>f. \<not> read_only f \<or> doc_field values (fieldname f) = default_value f)
       (dialog_fields dlg)"

section \<open>The Message Log behind \<^verbatim>\<open>manual_produce\<close>\<close>

text \<open>
  Modelled from the spec: the Message Log and the producer engine are server code of the
  app that is not among the source files. An entry carries the attributes of the data
  model that the form script reads.
\<close>

record log_entry =
  entry_direction :: string
  entry_status :: string
  entry_source_doctype :: jsval
  entry_source_docname :: jsval
  entry_rule_name :: jsval

text \<open>
  Modelled from the spec: \<^verbatim>\<open>open(direction, correlationId, ruleOrHandler, sourceRef)\<close>
  of the Message Log adds one entry in status Pending and returns its id; entries are
  never deleted. The correlation id is left out.
\<close>

definition log_open :: "string \<Rightarrow> jsval \<Rightarrow> jsval \<Rightarrow> jsval \<Rightarrow> log_entry list \<Rightarrow> nat \<times> log_entry list" where
  "log_open direction rule doctype docname log =
     (length log,
      log @ [\<lparr>entry_direction = direction, entry_status = ''Pending'',
              entry_source_doctype = doctype, entry_source_docname = docname,
              entry_rule_name = rule\<rparr>])"

text \<open>
  Modelled from the spec: \<^verbatim>\<open>transition(EntryId, newStatus)\<close> of the Message Log
  writes the new status of that one entry.
\<close>

definition log_transition :: "nat \<Rightarrow> string \<Rightarrow> log_entry list \<Rightarrow> log_entry list" where
  "log_transition i new_status log =
     (if i < length log then log[i := (log ! i)\<lparr>entry_status := new_status\<rparr>] else log)"

text \<open>
  Modelled from the spec: \<^verbatim>\<open>produce(documentType, documentName, ruleName)\<close> of the
  producer engine opens a Message Log entry (Pending) before any network call, then
  moves it to Sent when the broker acknowledges and to Failed on any encode or publish
  failure. \<open>published\<close> is the outcome of encoding and publishing.
\<close>

definition produce :: "jsval \<Rightarrow> jsval \<Rightarrow> jsval \<Rightarrow> bool \<Rightarrow> log_entry list \<Rightarrow> log_entry list" where
  "produce doctype docname rule published log =
     (case log_open ''Produced'' rule doctype docname log of
        (i, log') \<Rightarrow> log_transition i (if published then ''Sent'' else ''Failed'') log')"

text \<open>
  Modelled from the spec: the gateway operation
  \<^verbatim>\<open>manual_produce(doctype, docname, rule_name)\<close> uses the same \<^verbatim>\<open>produce\<close> contract;
  here it serves a request of the user interface.
\<close>

definition manual_produce :: "call \<Rightarrow> bool \<Rightarrow> log_entry list \<Rightarrow> log_entry list" where
  "manual_produce c published log =
     produce (call_arg c ''doctype'') (call_arg c ''docname'') (call_arg c ''rule_name'')
       published log"

text \<open>
  Modelled from the spec: the document the Message Log form shows for an entry of the
  log.
\<close>

definition entry_doc :: "log_entry \<Rightarrow> doc" where
  "entry_doc e =
     [(''direction'', JStr (entry_direction e)),
      (''status'', JStr (entry_status e)),
      (''source_doctype'', entry_source_doctype e),
      (''source_docname'', entry_source_docname e),
      (''rule_name'', entry_rule_name e)]"


section \<open>Properties\<close>

subsection \<open>Reading values\<close>

lemma and_then_Inr [simp]: "and_then (Inr v) f = f v"
  by (simp add: and_then_def)

lemma and_then_Inl [simp]: "and_then (Inl e) f = Inl e"
  by (simp add: and_then_def)

lemma js_get_truthy: "truthy v \<Longrightarrow> \<exists>w. js_get v k = Inr w"
  by (cases v) simp_all



subsection \<open>Status colours\<close>

text \<open>
  C7. The form view and the list view know the same seven statuses, Pending, Sent,
  Delivered, Failed, Processed, Skipped and Dead Letter, and give each the same colour:
  orange, blue, blue, red, green, grey and darkgrey. For a document in one of these
  statuses the form indicator and the list indicator show that colour.
\<close>

theorem status_colours_agree:
  "map fst status_colors =
     [''Pending'', ''Sent'', ''Delivered'', ''Failed'', ''Processed'', ''Skipped'', ''Dead Letter'']
   \<and> map fst (status_map tr) = map fst status_colors
   \<and> map (\<lambda>(status, lbl, colour, flt). (status, colour)) (status_map tr) = status_colors
   \<and> map snd status_colors =
       [''orange'', ''blue'', ''blue'', ''red'', ''green'', ''grey'', ''darkgrey'']
   \<and> list_all (\<lambda>(status, colour).
        set_status_indicator tr [(''status'', JStr status)]
          = Inr [SetIndicator (tr (JStr status) []) (Own colour)]
        \<and> get_indicator tr [(''status'', JStr status)]
          = Inr (Own (tr (JStr status) [], colour, ''status,=,'' @ status))) status_colors"
  by (simp add: status_colors_def status_map_def set_status_indicator_def get_indicator_def
      js_lookup_def doc_field_def)

theorem status_colours_agree_witness:
  "map fst (status_map untranslated) = map fst status_colors
   \<and> get_indicator untranslated [(''status'', JStr ''Dead Letter'')]
       = Inr (Own (JStr ''Dead Letter'', ''darkgrey'', ''status,=,Dead Letter''))"
  using status_colours_agree [of untranslated]
  by (simp add: status_colors_def untranslated_def)

text \<open>
  The fallback of the two indicator functions, where it works: a status whose string is
  neither one of the seven nor the name of a member of \<^verbatim>\<open>Object.prototype\<close> gets the
  translated raw status as label, grey as colour and the empty filter.
\<close>

lemma unknown_status_is_grey:
  assumes "to_string (doc_field d ''status'') = Inr k"
    and "k \<notin> set (map fst status_colors)"
    and "k \<notin> set object_prototype_members"
  shows "get_indicator tr d = Inr (Own (tr (doc_field d ''status'') [], ''grey'', []))
         \<and> set_status_indicator tr d
           = Inr [SetIndicator (tr (doc_field d ''status'') []) (Own ''grey'')]"
proof -
  from assms(2) have colour: "map_of status_colors k = None"
    by (simp add: map_of_eq_None_iff)
  from assms(2) have "k \<notin> set (map fst (status_map tr))"
    by (simp add: status_map_def status_colors_def)
  then have triple: "map_of (status_map tr) k = None"
    by (simp add: map_of_eq_None_iff)
  show ?thesis
    using assms(1,3) colour triple
    by (simp add: get_indicator_def set_status_indicator_def js_lookup_def)
qed

text \<open>
  C10. The indicator functions are to map every status outside the seven known values
  to grey, the list view with the raw status as label and an empty filter, and both
  lookups end in \<^verbatim>\<open>|| fallback\<close> for that purpose. For the status \<^verbatim>\<open>constructor\<close> they
  do not: the lookup in the object literal finds the inherited
  \<^verbatim>\<open>Object.prototype.constructor\<close>, which is truthy, so the list view returns that
  function instead of a triple and the form view passes it on as the colour instead of
  grey.
\<close>

theorem inherited_status_escapes_fallback:
  "get_indicator untranslated [(''status'', JStr ''constructor'')]
     = Inr (Inherited ''constructor'')
   \<and> get_indicator untranslated [(''status'', JStr ''constructor'')]
       \<noteq> Inr (Own (JStr ''constructor'', ''grey'', []))
   \<and> set_status_indicator untranslated [(''status'', JStr ''constructor'')]
       = Inr [SetIndicator (JStr ''constructor'') (Inherited ''constructor'')]
   \<and> set_status_indicator untranslated [(''status'', JStr ''constructor'')]
       \<noteq> Inr [SetIndicator (JStr ''constructor'') (Own ''grey'')]"
  by (simp add: get_indicator_def set_status_indicator_def js_lookup_def doc_field_def
      status_map_def status_colors_def object_prototype_members_def untranslated_def)


subsection \<open>Schema refresh\<close>

text \<open>
  C8, as the code has it. The refresh of the schema cache is reported as successful exactly
  when the response is present with a truthy \<^verbatim>\<open>ok\<close>. Otherwise a Schema Refresh Failed
  dialog is shown: with the \<^verbatim>\<open>message\<close> field of the response as it is when there is a
  response, and with the text Unknown error only when there is no response at all.
\<close>

theorem refresh_schemas_report:
  "(message_ok m \<longrightarrow>
      refresh_schemas_callback tr m
        = Inr [ShowAlert (tr (JStr ''Schema cache refreshed successfully'') []) ''green''])
   \<and> (\<not> message_ok m \<and> truthy m \<longrightarrow>
      (\<exists>text. js_get m ''message'' = Inr text
         \<and> refresh_schemas_callback tr m
             = Inr [MsgPrint (tr (JStr ''Schema Refresh Failed'') []) text ''red'']))
   \<and> (\<not> truthy m \<longrightarrow>
      refresh_schemas_callback tr m
        = Inr [MsgPrint (tr (JStr ''Schema Refresh Failed'') [])
                 (tr (JStr ''Unknown error'') []) ''red''])"
proof (intro conjI impI)
  assume "message_ok m"
  then show "refresh_schemas_callback tr m
      = Inr [ShowAlert (tr (JStr ''Schema cache refreshed successfully'') []) ''green'']"
    by (simp add: refresh_schemas_callback_def)
next
  assume failed: "\<not> message_ok m \<and> truthy m"
  then obtain shown where "js_get m ''message'' = Inr shown"
    using js_get_truthy by blast
  with failed show "\<exists>text. js_get m ''message'' = Inr text
      \<and> refresh_schemas_callback tr m
          = Inr [MsgPrint (tr (JStr ''Schema Refresh Failed'') []) text ''red'']"
    by (simp add: refresh_schemas_callback_def)
next
  assume "\<not> truthy m"
  then show "refresh_schemas_callback tr m
      = Inr [MsgPrint (tr (JStr ''Schema Refresh Failed'') [])
               (tr (JStr ''Unknown error'') []) ''red'']"
    by (simp add: refresh_schemas_callback_def message_ok_def)
qed

theorem refresh_schemas_report_witness:
  "message_ok (JObj [(''ok'', JBool True)])
   \<and> refresh_schemas_callback untranslated (JObj [(''ok'', JBool True)])
       = Inr [ShowAlert (JStr ''Schema cache refreshed successfully'') ''green'']
   \<and> \<not> message_ok (JObj [(''ok'', JBool False), (''message'', JStr ''registry down'')])
   \<and> truthy (JObj [(''ok'', JBool False), (''message'', JStr ''registry down'')])
   \<and> refresh_schemas_callback untranslated
         (JObj [(''ok'', JBool False), (''message'', JStr ''registry down'')])
       = Inr [MsgPrint (JStr ''Schema Refresh Failed'') (JStr ''registry down'') ''red'']
   \<and> \<not> truthy JUndefined
   \<and> refresh_schemas_callback untranslated JUndefined
       = Inr [MsgPrint (JStr ''Schema Refresh Failed'') (JStr ''Unknown error'') ''red'']"
  using refresh_schemas_report [of "JObj [(''ok'', JBool True)]" untranslated]
    refresh_schemas_report
      [of "JObj [(''ok'', JBool False), (''message'', JStr ''registry down'')]" untranslated]
    refresh_schemas_report [of JUndefined untranslated]
  by (simp add: message_ok_def untranslated_def)

text \<open>
  The claim as stated fails for a response that is present, has a falsy \<^verbatim>\<open>ok\<close> and
  carries no \<^verbatim>\<open>message\<close> field: the dialog is given \<^verbatim>\<open>undefined\<close>, not Unknown error.
\<close>

theorem refresh_schemas_report_counterexample:
  "refresh_schemas_callback untranslated (JObj [(''ok'', JBool False)])
     = Inr [MsgPrint (JStr ''Schema Refresh Failed'') JUndefined ''red'']
   \<and> refresh_schemas_callback untranslated (JObj [(''ok'', JBool False)])
     \<noteq> Inr [MsgPrint (JStr ''Schema Refresh Failed'') (JStr ''Unknown error'') ''red'']"
  by (simp add: refresh_schemas_callback_def message_ok_def untranslated_def)

subsection \<open>Manual push and retry\<close>

text \<open>
  C5. When a \<^verbatim>\<open>manual_produce\<close> request succeeds and its response carries the payload
  \<^verbatim>\<open>{idempotency_key}\<close>, the success alert shows exactly that \<^verbatim>\<open>idempotency_key\<close>,
  after a manual push from the Emission Rule form and after a retry from the Message Log
  form alike.
\<close>

theorem success_alert_shows_key:
  assumes "message_ok m"
    and "js_path m [''data'', ''idempotency_key''] = Inr key"
  shows "manual_push_callback tr m
           = Inr [ShowAlert (tr (JStr ''Message produced! Key: {0}'') [key]) ''green'']
         \<and> retry_callback tr m
           = Inr [ShowAlert (tr (JStr ''Message re-produced with key: {0}'') [key]) ''green'',
                  ReloadDoc]"
  using assms by (simp add: manual_push_callback_def retry_callback_def)

theorem success_alert_shows_key_witness:
  "message_ok (JObj [(''ok'', JBool True), (''data'', JObj [(''idempotency_key'', JStr ''k-42'')])])
   \<and> js_path (JObj [(''ok'', JBool True), (''data'', JObj [(''idempotency_key'', JStr ''k-42'')])])
        [''data'', ''idempotency_key''] = Inr (JStr ''k-42'')
   \<and> manual_push_callback untranslated
        (JObj [(''ok'', JBool True), (''data'', JObj [(''idempotency_key'', JStr ''k-42'')])])
       = Inr [ShowAlert (untranslated (JStr ''Message produced! Key: {0}'') [JStr ''k-42'']) ''green'']
   \<and> retry_callback untranslated
        (JObj [(''ok'', JBool True), (''data'', JObj [(''idempotency_key'', JStr ''k-42'')])])
       = Inr [ShowAlert (untranslated (JStr ''Message re-produced with key: {0}'') [JStr ''k-42''])
                ''green'', ReloadDoc]"
proof -
  let ?m = "JObj [(''ok'', JBool True), (''data'', JObj [(''idempotency_key'', JStr ''k-42'')])]"
  have ok: "message_ok ?m"
    by (simp add: message_ok_def)
  have key: "js_path ?m [''data'', ''idempotency_key''] = Inr (JStr ''k-42'')"
    by simp
  show ?thesis
    using ok key success_alert_shows_key [OF ok key, of untranslated] by simp
qed

text \<open>
  C3. The primary action of the Manual Push dialog and the confirmed Retry Production
  action each make one request, to the same method \<^verbatim>\<open>connect.api.manual_produce\<close>, with
  the same argument names \<^verbatim>\<open>doctype\<close>, \<^verbatim>\<open>docname\<close> and \<^verbatim>\<open>rule_name\<close>.
\<close>

theorem push_and_retry_same_operation:
  "map (\<lambda>c. (method c, map fst (args c))) (calls (primary_action tr rule values))
     = [(''connect.api.manual_produce'', [''doctype'', ''docname'', ''rule_name''])]
   \<and> map (\<lambda>c. (method c, map fst (args c))) (calls (retry_confirmed tr entry))
     = map (\<lambda>c. (method c, map fst (args c))) (calls (primary_action tr rule values))"
  by (simp add: primary_action_def retry_confirmed_def)

theorem push_and_retry_same_operation_witness:
  "map (\<lambda>c. (method c, map fst (args c)))
     (calls (retry_confirmed untranslated
        [(''source_doctype'', JStr ''Loan''), (''source_docname'', JStr ''LOAN-0001''),
         (''rule_name'', JStr ''loan-create'')]))
     = [(''connect.api.manual_produce'', [''doctype'', ''docname'', ''rule_name''])]"
  using push_and_retry_same_operation
    [of untranslated "[(''name'', JStr ''loan-create'')]"
        "[(''doctype'', JStr ''Loan''), (''docname'', JStr ''LOAN-0001'')]"
        "[(''source_doctype'', JStr ''Loan''), (''source_docname'', JStr ''LOAN-0001''),
          (''rule_name'', JStr ''loan-create'')]"]
  by simp

text \<open>
  C9. The refresh handler of the Emission Rule form adds the Manual Push button exactly
  when the rule is saved (not local) and enabled. The dialog of the button has a
  read-only field \<^verbatim>\<open>doctype\<close> whose default is the \<^verbatim>\<open>source_doctype\<close> of the rule, and a
  field \<^verbatim>\<open>docname\<close> that is not read-only. Whenever the dialog hands back the default of
  its read-only field, the one request of the primary action is a \<^verbatim>\<open>manual_produce\<close> for
  the rule's own source document type.
\<close>

theorem manual_push_targets_rule_doctype:
  "(AddCustomButton (tr (JStr ''Manual Push'') []) (Some (tr (JStr ''Actions'') []))
      \<in> set (emission_rule_refresh tr d)
    \<longleftrightarrow> \<not> truthy (doc_field d ''__islocal'') \<and> truthy (doc_field d ''enabled''))
   \<and> map (\<lambda>f. (fieldname f, read_only f, default_value f))
        (dialog_fields (manual_push_dialog tr d))
      = [(''doctype'', True, doc_field d ''source_doctype''), (''docname'', False, JUndefined)]
   \<and> (keeps_read_only_defaults (manual_push_dialog tr d) values \<longrightarrow>
        map (\<lambda>c. (method c, call_arg c ''doctype'')) (calls (primary_action tr d values))
          = [(''connect.api.manual_produce'', doc_field d ''source_doctype'')])"
  by (auto simp: emission_rule_refresh_def add_manual_push_button_def
      add_recent_logs_section_def manual_push_dialog_def keeps_read_only_defaults_def
      primary_action_def call_arg_def)

theorem manual_push_targets_rule_doctype_witness:
  "AddCustomButton (JStr ''Manual Push'') (Some (JStr ''Actions''))
      \<in> set (emission_rule_refresh untranslated
           [(''name'', JStr ''loan-create''), (''enabled'', JNum 1),
            (''source_doctype'', JStr ''Loan'')])
   \<and> keeps_read_only_defaults
        (manual_push_dialog untranslated
           [(''name'', JStr ''loan-create''), (''enabled'', JNum 1),
            (''source_doctype'', JStr ''Loan'')])
        [(''doctype'', JStr ''Loan''), (''docname'', JStr ''LOAN-0001'')]
   \<and> map (\<lambda>c. (method c, call_arg c ''doctype''))
        (calls (primary_action untranslated
           [(''name'', JStr ''loan-create''), (''enabled'', JNum 1),
            (''source_doctype'', JStr ''Loan'')]
           [(''doctype'', JStr ''Loan''), (''docname'', JStr ''LOAN-0001'')]))
      = [(''connect.api.manual_produce'', JStr ''Loan'')]"
proof -
  let ?d = "[(''name'', JStr ''loan-create''), (''enabled'', JNum 1),
             (''source_doctype'', JStr ''Loan'')]"
  let ?vals = "[(''doctype'', JStr ''Loan''), (''docname'', JStr ''LOAN-0001'')]"
  have kept: "keeps_read_only_defaults (manual_push_dialog untranslated ?d) ?vals"
    by (simp add: keeps_read_only_defaults_def manual_push_dialog_def doc_field_def)
  have saved: "\<not> truthy (doc_field ?d ''__islocal'') \<and> truthy (doc_field ?d ''enabled'')"
    by (simp add: doc_field_def)
  show ?thesis
    using kept saved manual_push_targets_rule_doctype [of untranslated ?d ?vals]
    by (simp add: doc_field_def untranslated_def)
qed


subsection \<open>Connection test\<close>





text \<open>
  C6. Every response of \<^verbatim>\<open>test_connection\<close> with \<^verbatim>\<open>ok\<close> true is to be rendered as a
  Kafka Brokers row and a Schema Registry row, and a problem with one subsystem is not to
  suppress the display of the other. The callback of the dialog tests \<^verbatim>\<open>data.kafka\<close>
  before it reads the status, but then reads \<^verbatim>\<open>data.kafka.detail\<close> unguarded: for a
  response without the \<^verbatim>\<open>kafka\<close> object it throws, and no dialog, hence no Schema
  Registry row either, is shown. The callback of the banner handles the same response
  and shows Kafka as failed and the Schema Registry as reachable.
\<close>

theorem missing_subsystem_suppresses_dialog:
  \<open>test_connection_callback untranslated
     (JObj [(''ok'', JBool True),
            (''data'', JObj [(''schema_registry'', JObj [(''status'', JStr ''ok''),
                                                         (''detail'', JStr ''3 subjects'')])])])
   = Inl TypeError
   \<and> update_connection_status_callback untranslated
     (JObj [(''ok'', JBool True),
            (''data'', JObj [(''schema_registry'', JObj [(''status'', JStr ''ok''),
                                                         (''detail'', JStr ''3 subjects'')])])])
   = Inr [BannerHtml
            (''<div class="alert alert-warning p-2 mb-0" style="font-size: 0.85rem;">''
             @ CHR 0x0A # replicate 6 (CHR 0x09)
             @ ''<span class="indicator-pill orange"></span>''
             @ CHR 0x0A # replicate 6 (CHR 0x09)
             @ ''<strong>Connection Issues</strong>''
             @ CHR 0x0A # replicate 6 (CHR 0x09)
             @ ''<span class="text-muted ml-2">''
             @ CHR 0x0A # replicate 7 (CHR 0x09)
             @ ''Kafka: '' @ [CHR 0xE2, CHR 0x9C, CHR 0x97]
             @ '' &nbsp;|&nbsp; Schema Registry: '' @ [CHR 0xE2, CHR 0x9C, CHR 0x93]
             @ CHR 0x0A # replicate 6 (CHR 0x09)
             @ ''</span>''
             @ CHR 0x0A # replicate 5 (CHR 0x09)
             @ ''</div>'')]\<close>
  by (simp add: test_connection_callback_def update_connection_status_callback_def
      message_ok_def status_banner_def nl_def check_mark_def cross_mark_def untranslated_def)






subsection \<open>Dashboard statistics\<close>

lemma js_add_safe:
  assumes "safe_integer a" and "safe_integer b" and "safe_integer (a + b)"
  shows "js_add (JNum a) (JNum b) = Inr (JNum (a + b))"
  using assms by (simp add: js_add_def)

lemma js_gt_zero_number [simp]: "js_gt_zero (JNum n) = Inr (0 < n)"
  by (simp add: js_gt_zero_def)

lemma count_magnitude_nonneg: "0 \<le> count_magnitude rows"
  by (induction rows) (auto simp: count_magnitude_def)

lemma count_magnitude_Cons:
  "count_magnitude ((direction, status, n) # rows) = \<bar>n\<bar> + count_magnitude rows"
  by (simp add: count_magnitude_def)

lemma count_where_Cons:
  "count_where cond ((direction, status, n) # rows) =
     (if cond direction status then n else 0) + count_where cond rows"
  by (simp add: count_where_def)

text \<open>One round of the loop on a row with an integer count, while the totals stay safe.\<close>

lemma stats_step_row:
  assumes "\<bar>p\<bar> + \<bar>n\<bar> \<le> max_safe_integer"
    and "\<bar>c\<bar> + \<bar>n\<bar> \<le> max_safe_integer"
    and "\<bar>f\<bar> + \<bar>n\<bar> \<le> max_safe_integer"
  shows "stats_step (JNum p, JNum c, JNum f) (stat_row (direction, status, n)) =
     Inr (JNum (p + (if direction = JStr ''Produced'' then n else 0)),
          JNum (c + (if direction = JStr ''Consumed'' then n else 0)),
          JNum (f + (if status = JStr ''Failed'' \<or> status = JStr ''Dead Letter'' then n else 0)))"
proof -
  have safe: "safe_integer p" "safe_integer c" "safe_integer f" "safe_integer n"
    "safe_integer (p + n)" "safe_integer (c + n)" "safe_integer (f + n)"
    using assms by (auto simp: safe_integer_def)
  show ?thesis
    by (simp add: stats_step_def stat_row_def js_add_safe safe)
qed

lemma stats_forEach_rows:
  assumes "\<bar>p\<bar> + count_magnitude rows \<le> max_safe_integer"
    and "\<bar>c\<bar> + count_magnitude rows \<le> max_safe_integer"
    and "\<bar>f\<bar> + count_magnitude rows \<le> max_safe_integer"
  shows "stats_forEach (map stat_row rows) (JNum p, JNum c, JNum f) =
     Inr (JNum (p + count_where (\<lambda>direction status. direction = JStr ''Produced'') rows),
          JNum (c + count_where (\<lambda>direction status. direction = JStr ''Consumed'') rows),
          JNum (f + count_where (\<lambda>direction status.
                     status = JStr ''Failed'' \<or> status = JStr ''Dead Letter'') rows))"
  using assms
proof (induction rows arbitrary: p c f)
  case Nil
  then show ?case by (simp add: count_where_def)
next
  case (Cons row rows)
  obtain direction status n where row: "row = (direction, status, n)"
    by (cases row) auto
  note rest = count_magnitude_nonneg [of rows]
  from Cons.prems rest have step:
    "\<bar>p\<bar> + \<bar>n\<bar> \<le> max_safe_integer" "\<bar>c\<bar> + \<bar>n\<bar> \<le> max_safe_integer"
    "\<bar>f\<bar> + \<bar>n\<bar> \<le> max_safe_integer"
    unfolding row count_magnitude_Cons by linarith+
  let ?p = "p + (if direction = JStr ''Produced'' then n else 0)"
  let ?c = "c + (if direction = JStr ''Consumed'' then n else 0)"
  let ?f = "f + (if status = JStr ''Failed'' \<or> status = JStr ''Dead Letter'' then n else 0)"
  from Cons.prems have next_safe:
    "\<bar>?p\<bar> + count_magnitude rows \<le> max_safe_integer"
    "\<bar>?c\<bar> + count_magnitude rows \<le> max_safe_integer"
    "\<bar>?f\<bar> + count_magnitude rows \<le> max_safe_integer"
    unfolding row count_magnitude_Cons by (auto split: if_splits)
  show ?case
    unfolding row list.map stats_forEach.simps stats_step_row [OF step] and_then_Inr
      Cons.IH [OF next_safe] count_where_Cons
    by simp
qed

text \<open>
  C4. For every list \<^verbatim>\<open>stats\<close> of rows \<^verbatim>\<open>{direction, status, count}\<close> returned by
  \<^verbatim>\<open>get_kafka_stats\<close>, with integer counts that together stay within the range in
  which JavaScript adds exactly, the three indicators of the dashboard show sums over that
  list and nothing else: Produced is the sum of the counts of the rows with direction
  Produced, Consumed the sum over the rows with direction Consumed, and Failed the sum
  over the rows with status Failed or Dead Letter, of either direction. For an empty
  list no indicator is shown.
\<close>

theorem dashboard_totals_are_sums:
  assumes "message_ok m"
    and "js_path m [''data'', ''stats''] = Inr (JArr (map stat_row rows))"
    and "count_magnitude rows \<le> max_safe_integer"
  shows "stats_callback tr m =
     (if rows = [] then Inr []
      else
        let produced = count_where (\<lambda>direction status. direction = JStr ''Produced'') rows;
            consumed = count_where (\<lambda>direction status. direction = JStr ''Consumed'') rows;
            failed = count_where (\<lambda>direction status.
                       status = JStr ''Failed'' \<or> status = JStr ''Dead Letter'') rows
        in Inr [AddIndicator (tr (JStr ''Produced (24h): {0}'') [JNum produced])
                  (if 0 < produced then ''blue'' else ''grey''),
                AddIndicator (tr (JStr ''Consumed (24h): {0}'') [JNum consumed])
                  (if 0 < consumed then ''green'' else ''grey''),
                AddIndicator (tr (JStr ''Failed (24h): {0}'') [JNum failed])
                  (if 0 < failed then ''red'' else ''grey'')])"
proof (cases "rows = []")
  case True
  with assms show ?thesis
    by (simp add: stats_callback_def js_or_def)
next
  case False
  have loop: "stats_forEach (map stat_row rows) (JNum 0, JNum 0, JNum 0) =
     Inr (JNum (count_where (\<lambda>direction status. direction = JStr ''Produced'') rows),
          JNum (count_where (\<lambda>direction status. direction = JStr ''Consumed'') rows),
          JNum (count_where (\<lambda>direction status.
                  status = JStr ''Failed'' \<or> status = JStr ''Dead Letter'') rows))"
    using stats_forEach_rows [of 0 rows 0 0] assms(3) by simp
  from False assms(1,2) show ?thesis
    by (simp add: stats_callback_def js_or_def loop stats_indicator_def Let_def)
qed

theorem dashboard_totals_are_sums_witness:
  "count_magnitude
     [(JStr ''Produced'', JStr ''Sent'', 5),
      (JStr ''Produced'', JStr ''Failed'', 2),
      (JStr ''Consumed'', JStr ''Dead Letter'', 1),
      (JStr ''Consumed'', JStr ''Processed'', 7)] \<le> max_safe_integer
   \<and> stats_callback untranslated
     (JObj [(''ok'', JBool True),
            (''data'', JObj [(''stats'', JArr
               [JObj [(''direction'', JStr ''Produced''), (''status'', JStr ''Sent''),
                      (''count'', JNum 5)],
                JObj [(''direction'', JStr ''Produced''), (''status'', JStr ''Failed''),
                      (''count'', JNum 2)],
                JObj [(''direction'', JStr ''Consumed''), (''status'', JStr ''Dead Letter''),
                      (''count'', JNum 1)],
                JObj [(''direction'', JStr ''Consumed''), (''status'', JStr ''Processed''),
                      (''count'', JNum 7)]])])])
   = Inr [AddIndicator (untranslated (JStr ''Produced (24h): {0}'') [JNum 7]) ''blue'',
          AddIndicator (untranslated (JStr ''Consumed (24h): {0}'') [JNum 8]) ''green'',
          AddIndicator (untranslated (JStr ''Failed (24h): {0}'') [JNum 3]) ''red'']"
proof -
  let ?rows = "[(JStr ''Produced'', JStr ''Sent'', 5::int),
                (JStr ''Produced'', JStr ''Failed'', 2),
                (JStr ''Consumed'', JStr ''Dead Letter'', 1),
                (JStr ''Consumed'', JStr ''Processed'', 7)]"
  let ?m = "JObj [(''ok'', JBool True), (''data'', JObj [(''stats'', JArr (map stat_row ?rows))])]"
  have ok: "message_ok ?m"
    by (simp add: message_ok_def)
  have stats: "js_path ?m [''data'', ''stats''] = Inr (JArr (map stat_row ?rows))"
    by simp
  have bound: "count_magnitude ?rows \<le> max_safe_integer"
    by (simp add: count_magnitude_def max_safe_integer_def)
  show ?thesis
    using bound dashboard_totals_are_sums [OF ok stats bound, of untranslated]
    by (simp add: count_where_def stat_row_def)
qed


subsection \<open>Retry of a failed entry\<close>

lemma produce_appends:
  "produce doctype docname rule published log =
     log @ [\<lparr>entry_direction = ''Produced'',
             entry_status = (if published then ''Sent'' else ''Failed''),
             entry_source_doctype = doctype, entry_source_docname = docname,
             entry_rule_name = rule\<rparr>]"
  by (simp add: produce_def log_open_def log_transition_def)

text \<open>
  C2. For every Message Log document, the Retry Production button is added exactly when
  the status is Failed, the direction is Produced, and \<^verbatim>\<open>source_doctype\<close>,
  \<^verbatim>\<open>source_docname\<close> and \<^verbatim>\<open>rule_name\<close> are all present. Once confirmed, the action
  makes one request, \<^verbatim>\<open>connect.api.manual_produce\<close>, with these three values of the
  document. Served by \<^verbatim>\<open>produce\<close> as the spec describes it, the request for the entry
  at position \<open>i\<close> of a log leaves every entry of the log as it was, the failed one
  included, and adds one new entry for the same source document and rule.
\<close>

theorem retry_opens_new_entry:
  "add_retry_button tr d =
     (if doc_field d ''status'' = JStr ''Failed'' \<and> doc_field d ''direction'' = JStr ''Produced''
         \<and> truthy (doc_field d ''source_doctype'') \<and> truthy (doc_field d ''source_docname'')
         \<and> truthy (doc_field d ''rule_name'')
      then [AddCustomButton (tr (JStr ''Retry Production'') []) None] else [])
   \<and> map (\<lambda>c. (method c, args c)) (calls (retry_confirmed tr d))
      = [(''connect.api.manual_produce'',
          [(''doctype'', doc_field d ''source_doctype''),
           (''docname'', doc_field d ''source_docname''),
           (''rule_name'', doc_field d ''rule_name'')])]
   \<and> (i < length log \<longrightarrow>
        map (\<lambda>c. manual_produce c published log) (calls (retry_confirmed tr (entry_doc (log ! i))))
          = [log @ [\<lparr>entry_direction = ''Produced'',
                     entry_status = (if published then ''Sent'' else ''Failed''),
                     entry_source_doctype = entry_source_doctype (log ! i),
                     entry_source_docname = entry_source_docname (log ! i),
                     entry_rule_name = entry_rule_name (log ! i)\<rparr>]]
        \<and> (\<forall>c \<in> set (calls (retry_confirmed tr (entry_doc (log ! i)))).
              manual_produce c published log ! i = log ! i))"
proof (intro conjI impI)
  show "add_retry_button tr d =
     (if doc_field d ''status'' = JStr ''Failed'' \<and> doc_field d ''direction'' = JStr ''Produced''
         \<and> truthy (doc_field d ''source_doctype'') \<and> truthy (doc_field d ''source_docname'')
         \<and> truthy (doc_field d ''rule_name'')
      then [AddCustomButton (tr (JStr ''Retry Production'') []) None] else [])"
    by (simp add: add_retry_button_def)
  show "map (\<lambda>c. (method c, args c)) (calls (retry_confirmed tr d))
      = [(''connect.api.manual_produce'',
          [(''doctype'', doc_field d ''source_doctype''),
           (''docname'', doc_field d ''source_docname''),
           (''rule_name'', doc_field d ''rule_name'')])]"
    by (simp add: retry_confirmed_def)
next
  assume "i < length log"
  show "map (\<lambda>c. manual_produce c published log) (calls (retry_confirmed tr (entry_doc (log ! i))))
          = [log @ [\<lparr>entry_direction = ''Produced'',
                     entry_status = (if published then ''Sent'' else ''Failed''),
                     entry_source_doctype = entry_source_doctype (log ! i),
                     entry_source_docname = entry_source_docname (log ! i),
                     entry_rule_name = entry_rule_name (log ! i)\<rparr>]]"
    by (simp add: retry_confirmed_def manual_produce_def produce_appends call_arg_def
        entry_doc_def doc_field_def)
next
  assume "i < length log"
  then show "\<forall>c \<in> set (calls (retry_confirmed tr (entry_doc (log ! i)))).
              manual_produce c published log ! i = log ! i"
    by (simp add: retry_confirmed_def manual_produce_def produce_appends nth_append)
qed

theorem retry_opens_new_entry_witness:
  "add_retry_button untranslated
     (entry_doc \<lparr>entry_direction = ''Produced'', entry_status = ''Failed'',
                 entry_source_doctype = JStr ''Loan'', entry_source_docname = JStr ''LOAN-0001'',
                 entry_rule_name = JStr ''loan-create''\<rparr>)
     = [AddCustomButton (JStr ''Retry Production'') None]
   \<and> map (\<lambda>c. manual_produce c True
            [\<lparr>entry_direction = ''Produced'', entry_status = ''Failed'',
              entry_source_doctype = JStr ''Loan'', entry_source_docname = JStr ''LOAN-0001'',
              entry_rule_name = JStr ''loan-create''\<rparr>])
        (calls (retry_confirmed untranslated
           (entry_doc \<lparr>entry_direction = ''Produced'', entry_status = ''Failed'',
                       entry_source_doctype = JStr ''Loan'',
                       entry_source_docname = JStr ''LOAN-0001'',
                       entry_rule_name = JStr ''loan-create''\<rparr>)))
     = [[\<lparr>entry_direction = ''Produced'', entry_status = ''Failed'',
          entry_source_doctype = JStr ''Loan'', entry_source_docname = JStr ''LOAN-0001'',
          entry_rule_name = JStr ''loan-create''\<rparr>,
         \<lparr>entry_direction = ''Produced'', entry_status = ''Sent'',
          entry_source_doctype = JStr ''Loan'', entry_source_docname = JStr ''LOAN-0001'',
          entry_rule_name = JStr ''loan-create''\<rparr>]]"
proof -
  let ?e = "\<lparr>entry_direction = ''Produced'', entry_status = ''Failed'',
             entry_source_doctype = JStr ''Loan'', entry_source_docname = JStr ''LOAN-0001'',
             entry_rule_name = JStr ''loan-create''\<rparr>"
  have pos: "(0::nat) < length [?e]"
    by simp
  show ?thesis
    using pos retry_opens_new_entry [of untranslated "entry_doc ?e" 0 "[?e]" True]
    by (simp add: entry_doc_def doc_field_def untranslated_def)
qed

end
